theory Spec2Isabelle
  imports
    Main
    "HOL-Library.Char_ord"
    "HOL-Library.List_Lexorder"
    "HOL-Library.Sublist"
begin

section \<open>Strings\<close>

text \<open>
  The program is \<^verbatim>\<open>tui.py\<close>, a terminal front-end written in Python. A Python
  \<^verbatim>\<open>str\<close> is modelled as a \<^typ>\<open>string\<close> whose characters are the code points
  below 256; \<^verbatim>\<open>str.lower\<close>, \<^verbatim>\<open>str.strip\<close>, \<^verbatim>\<open>str.startswith\<close> and the
  substring test \<^verbatim>\<open>in\<close> are written out for that range. Strings compare as in Python,
  lexicographically by code point.
\<close>

definition lower_char :: "char \<Rightarrow> char" where
  "lower_char c =
     (let n = (of_char c :: nat)
      in if (65 \<le> n \<and> n \<le> 90) \<or> (192 \<le> n \<and> n \<le> 222 \<and> n \<noteq> 215)
         then char_of (n + 32) else c)"

definition lower :: "string \<Rightarrow> string" where
  "lower s = map lower_char s"

definition isspace :: "char \<Rightarrow> bool" where
  "isspace c =
     (let n = (of_char c :: nat)
      in (9 \<le> n \<and> n \<le> 13) \<or> (28 \<le> n \<and> n \<le> 32) \<or> n = 133 \<or> n = 160)"

definition strip :: "string \<Rightarrow> string" where
  "strip s = rev (dropWhile isspace (rev (dropWhile isspace s)))"

fun startswith :: "string \<Rightarrow> string \<Rightarrow> bool" where
  "startswith s [] = True"
| "startswith [] (p # ps) = False"
| "startswith (c # cs) (p # ps) = (c = p \<and> startswith cs ps)"

text \<open>\<^verbatim>\<open>needle in hay\<close> on strings.\<close>

fun str_in :: "string \<Rightarrow> string \<Rightarrow> bool" where
  "str_in needle [] = (needle = [])"
| "str_in needle (c # cs) = (startswith (c # cs) needle \<or> str_in needle cs)"

text \<open>\<^verbatim>\<open>str(n)\<close> and \<^verbatim>\<open>f"{n}"\<close> for an integer: its decimal digits.\<close>

definition digit_char :: "nat \<Rightarrow> char" where
  "digit_char d = char_of (48 + d)"

function str_nat :: "nat \<Rightarrow> string" where
  "str_nat n = (if n < 10 then [digit_char n] else str_nat (n div 10) @ [digit_char (n mod 10)])"
  by pat_completeness auto
termination
  by (relation "measure (\<lambda>n. n)") auto

declare str_nat.simps [simp del]

definition str_int :: "int \<Rightarrow> string" where
  "str_int i = (if i < 0 then CHR ''-'' # str_nat (nat (- i)) else str_nat (nat i))"

text \<open>Reading a decimal numeral back; used only to state that \<open>str_int\<close> loses nothing.\<close>

definition digit_val :: "char \<Rightarrow> nat" where
  "digit_val c = of_char c - 48"

definition nat_of_str :: "string \<Rightarrow> nat" where
  "nat_of_str s = foldl (\<lambda>a c. 10 * a + digit_val c) 0 s"

definition int_of_str :: "string \<Rightarrow> int" where
  "int_of_str s =
     (case s of
        [] \<Rightarrow> 0
      | c # cs \<Rightarrow> if c = CHR ''-'' then - int (nat_of_str cs) else int (nat_of_str s))"

section \<open>Paths (\<^verbatim>\<open>pathlib.Path\<close> on POSIX)\<close>

text \<open>
  A path is its root (\<open>''''\<close> for a relative path, \<open>''/''\<close>, or \<open>''//''\<close>) and its
  components. \<open>splitroot\<close> and \<open>parse_parts\<close> follow \<^verbatim>\<open>posixpath.splitroot\<close> and
  pathlib's parser: empty components and \<open>''.''\<close> are dropped, \<open>''..''\<close> is kept.
\<close>

datatype path = Path (path_root: string) (path_parts: "string list")

fun split_sep :: "char \<Rightarrow> string \<Rightarrow> string list" where
  "split_sep sep [] = [[]]"
| "split_sep sep (c # cs) =
     (if c = sep then [] # split_sep sep cs
      else (case split_sep sep cs of
              [] \<Rightarrow> [[c]]
            | w # ws \<Rightarrow> (c # w) # ws))"

definition splitroot :: "string \<Rightarrow> string \<times> string" where
  "splitroot p =
     (if take 1 p \<noteq> ''/'' then ('''', p)
      else if take 1 (drop 1 p) \<noteq> ''/'' \<or> take 1 (drop 2 p) = ''/'' then (''/'', drop 1 p)
      else (take 2 p, drop 2 p))"

definition parse_parts :: "string \<Rightarrow> string list" where
  "parse_parts rel = filter (\<lambda>x. x \<noteq> [] \<and> x \<noteq> ''.'') (split_sep CHR ''/'' rel)"

definition path_of :: "string \<Rightarrow> path" where
  "path_of s = (case splitroot s of (r, rel) \<Rightarrow> Path r (parse_parts rel))"

text \<open>\<^verbatim>\<open>parent / name\<close>: an absolute right operand replaces the left one.\<close>

definition joinpath :: "path \<Rightarrow> string \<Rightarrow> path" where
  "joinpath p s =
     (if startswith s ''/'' then path_of s
      else Path (path_root p) (path_parts p @ parse_parts s))"

text \<open>\<^verbatim>\<open>p.name\<close>: the last component, empty when there is none.\<close>

definition path_name :: "path \<Rightarrow> string" where
  "path_name p = (if path_parts p = [] then [] else last (path_parts p))"

definition path_parent :: "path \<Rightarrow> path" where
  "path_parent p = Path (path_root p) (butlast (path_parts p))"

fun join_sep :: "string list \<Rightarrow> string" where
  "join_sep [] = []"
| "join_sep [x] = x"
| "join_sep (x # y # ys) = x @ ''/'' @ join_sep (y # ys)"

definition path_str :: "path \<Rightarrow> string" where
  "path_str p =
     (if path_root p = [] \<and> path_parts p = [] then ''.''
      else path_root p @ join_sep (path_parts p))"

section \<open>Path Filter\<close>

text \<open>
  \<^verbatim>\<open>FilteredDirectoryTree.filter_paths\<close>:
  \<^verbatim>\<open>[p for p in paths if not p.name.startswith(".")]\<close>.
\<close>

definition filter_paths :: "path list \<Rightarrow> path list" where
  "filter_paths paths = [p \<leftarrow> paths. \<not> startswith (path_name p) ''.'']"

section \<open>The filesystem\<close>

text \<open>
  The filesystem is external to the program. It is modelled as a map from resolved
  directory paths (component lists from the root \<open>[]\<close>) to nodes, with the working
  directory for relative paths. A directory carries its write permission. Only the
  \<^verbatim>\<open>OSError\<close> outcomes of \<^verbatim>\<open>mkdir\<close> are modelled, since those are what the
  program handles.
\<close>

datatype node = Dir bool | File

datatype errno = ENOENT | EEXIST | ENOTDIR | EACCES | ENAMETOOLONG

datatype oserror = OSError errno path

record fs =
  nodes :: "string list \<rightharpoonup> node"
  cwd :: "string list"

text \<open>
  Walking the components of a path from a directory, as the kernel does: \<open>''..''\<close>
  steps to the parent, any other component must name a directory.
\<close>

fun walk :: "(string list \<rightharpoonup> node) \<Rightarrow> string list \<Rightarrow> string list \<Rightarrow> errno + string list" where
  "walk ns cur [] = Inr cur"
| "walk ns cur (c # cs) =
     (if c = ''..'' then walk ns (butlast cur) cs
      else if 255 < length c then Inl ENAMETOOLONG
      else (case ns (cur @ [c]) of
              None \<Rightarrow> Inl ENOENT
            | Some File \<Rightarrow> Inl ENOTDIR
            | Some (Dir w) \<Rightarrow> walk ns (cur @ [c]) cs))"

definition start_dir :: "fs \<Rightarrow> path \<Rightarrow> string list" where
  "start_dir f p = (if path_root p = [] then cwd f else [])"

text \<open>\<^verbatim>\<open>os.mkdir(p)\<close>: creates one directory; every other outcome is an error.\<close>

definition os_mkdir :: "fs \<Rightarrow> path \<Rightarrow> oserror + fs" where
  "os_mkdir f p =
     (if path_parts p = [] then Inl (OSError EEXIST p)
      else (case walk (nodes f) (start_dir f p) (butlast (path_parts p)) of
              Inl e \<Rightarrow> Inl (OSError e p)
            | Inr d \<Rightarrow>
                (let c = last (path_parts p)
                 in if c = ''..'' then Inl (OSError EEXIST p)
                    else if 255 < length c then Inl (OSError ENAMETOOLONG p)
                    else (case nodes f (d @ [c]) of
                            Some n \<Rightarrow> Inl (OSError EEXIST p)
                          | None \<Rightarrow>
                              (case nodes f d of
                                 None \<Rightarrow> Inl (OSError ENOENT p)
                               | Some File \<Rightarrow> Inl (OSError ENOTDIR p)
                               | Some (Dir w) \<Rightarrow>
                                   if w then Inr (f\<lparr>nodes := (nodes f)(d @ [c] \<mapsto> Dir True)\<rparr>)
                                   else Inl (OSError EACCES p))))))"

text \<open>\<^verbatim>\<open>p.is_dir()\<close>.\<close>

definition is_dir :: "fs \<Rightarrow> path \<Rightarrow> bool" where
  "is_dir f p =
     (case walk (nodes f) (start_dir f p) (path_parts p) of
        Inl e \<Rightarrow> False
      | Inr d \<Rightarrow> (case nodes f d of Some (Dir w) \<Rightarrow> True | _ \<Rightarrow> False))"

text \<open>
  \<^verbatim>\<open>p.mkdir(parents=True, exist_ok=True)\<close>, following pathlib: on
  \<^verbatim>\<open>FileNotFoundError\<close> the parent is created recursively and the directory is then made
  with \<^verbatim>\<open>parents=False\<close>; any other \<^verbatim>\<open>OSError\<close> is swallowed when the path is a
  directory. The filesystem is returned in both outcomes, because a failure can come
  after intermediate directories were made.
\<close>

definition is_enoent :: "oserror \<Rightarrow> bool" where
  "is_enoent e = (case e of OSError n q \<Rightarrow> n = ENOENT)"

definition mkdir_exist_ok :: "fs \<Rightarrow> path \<Rightarrow> oserror \<Rightarrow> fs \<times> oserror option" where
  "mkdir_exist_ok f p e = (if is_dir f p then (f, None) else (f, Some e))"

function mkdir_parents :: "fs \<Rightarrow> path \<Rightarrow> fs \<times> oserror option" where
  "mkdir_parents f p =
     (case os_mkdir f p of
        Inr f' \<Rightarrow> (f', None)
      | Inl e \<Rightarrow>
          if is_enoent e then
            (if path_parent p = p then (f, Some e)
             else (case mkdir_parents f (path_parent p) of
                     (f1, Some e1) \<Rightarrow> (f1, Some e1)
                   | (f1, None) \<Rightarrow>
                       (case os_mkdir f1 p of
                          Inr f2 \<Rightarrow> (f2, None)
                        | Inl e2 \<Rightarrow>
                            if is_enoent e2 then (f1, Some e2)
                            else mkdir_exist_ok f1 p e2)))
          else mkdir_exist_ok f p e)"
  by pat_completeness auto
termination
proof (relation "measure (\<lambda>(f, p). length (path_parts p))")
  show "wf (measure (\<lambda>(f, p). length (path_parts p)))"
    by simp
next
  fix f :: fs and p :: path and e :: oserror
  assume "path_parent p \<noteq> p"
  then have "path_parts p \<noteq> []"
    by (cases p) (auto simp: path_parent_def)
  then show "((f, path_parent p), (f, p)) \<in> measure (\<lambda>(f, p). length (path_parts p))"
    by (simp add: path_parent_def)
qed

declare mkdir_parents.simps [simp del]

section \<open>Directory Picker\<close>

text \<open>
  \<^verbatim>\<open>DirectoryPickerScreen\<close>. The readout is the \<^verbatim>\<open>#selected-path\<close> widget; its text is
  one of four f-string templates of the source, kept with the interpolated value.
  \<open>dismissed\<close> is \<open>None\<close> while the screen is open and \<open>Some r\<close> after
  \<^verbatim>\<open>self.dismiss(r)\<close>. \<open>tree_nodes\<close> is what the tree widget last loaded.
\<close>

datatype readout =
    Current path
  | Selected path
  | Created_and_Selected path
  | Error oserror

record dir_picker =
  start_path :: path
  selected_path :: "path option"
  selected_path_readout :: readout
  new_folder_input :: string
  tree_nodes :: "string list \<rightharpoonup> node"
  dismissed :: "path option option"

text \<open>\<^verbatim>\<open>__init__\<close> and \<^verbatim>\<open>compose\<close>; \<open>home\<close> is \<^verbatim>\<open>Path.home()\<close>.\<close>

definition DirectoryPickerScreen :: "path \<Rightarrow> fs \<Rightarrow> path option \<Rightarrow> dir_picker" where
  "DirectoryPickerScreen home f start =
     (let sp = (case start of Some p \<Rightarrow> p | None \<Rightarrow> home)
      in \<lparr>start_path = sp, selected_path = None, selected_path_readout = Current sp,
          new_folder_input = [], tree_nodes = nodes f, dismissed = None\<rparr>)"

definition on_directory_selected :: "dir_picker \<Rightarrow> path \<Rightarrow> dir_picker" where
  "on_directory_selected s p = s\<lparr>selected_path := Some p, selected_path_readout := Selected p\<rparr>"

text \<open>\<^verbatim>\<open>self.selected_path or self.start_path\<close>: a \<^verbatim>\<open>Path\<close> is always truthy.\<close>

definition selected_or_start :: "dir_picker \<Rightarrow> path" where
  "selected_or_start s = (case selected_path s of Some p \<Rightarrow> p | None \<Rightarrow> start_path s)"

definition on_create_folder :: "fs \<Rightarrow> dir_picker \<Rightarrow> fs \<times> dir_picker" where
  "on_create_folder f s =
     (let folder_name = strip (new_folder_input s)
      in if folder_name = [] then (f, s)
         else (let parent = selected_or_start s;
                   new_path = joinpath parent folder_name
               in (case mkdir_parents f new_path of
                     (f', None) \<Rightarrow>
                       (f', s\<lparr>selected_path := Some new_path,
                              selected_path_readout := Created_and_Selected new_path,
                              new_folder_input := [],
                              tree_nodes := nodes f'\<rparr>)
                   | (f', Some e) \<Rightarrow> (f', s\<lparr>selected_path_readout := Error e\<rparr>))))"

definition dp_on_select :: "dir_picker \<Rightarrow> dir_picker" where
  "dp_on_select s = s\<lparr>dismissed := Some (Some (selected_or_start s))\<rparr>"

definition dp_action_cancel :: "dir_picker \<Rightarrow> dir_picker" where
  "dp_action_cancel s = s\<lparr>dismissed := Some None\<rparr>"

section \<open>Repository Picker\<close>

text \<open>
  \<^verbatim>\<open>RepoPickerScreen\<close>. A candidate is a pair (name, url). \<open>option_list\<close> is the
  \<^verbatim>\<open>#repo-list\<close> widget, the sequence of its options \<^verbatim>\<open>Option(name, id=url)\<close>; it is
  empty until \<^verbatim>\<open>compose\<close> has built the widget. \<open>rp_dismissed\<close> is \<open>None\<close> while the
  screen is open and \<open>Some r\<close> after \<^verbatim>\<open>self.dismiss(r)\<close>. \<open>RepoPickerScreen\<close> is the
  state after \<^verbatim>\<open>__init__\<close>; the screen the user sees is the one \<open>open_repo_picker\<close>
  returns.
\<close>

type_synonym repo = "string \<times> string"

record repo_picker =
  repos :: "repo list"
  filtered_repos :: "repo list"
  selected_url :: "string option"
  option_list :: "repo list"
  rp_dismissed :: "string option option"

definition RepoPickerScreen :: "repo list \<Rightarrow> repo_picker" where
  "RepoPickerScreen rs =
     \<lparr>repos = rs, filtered_repos = rs, selected_url = None, option_list = [],
      rp_dismissed = None\<rparr>"

text \<open>
  \<^verbatim>\<open>option_list.add_option\<close> in \<^verbatim>\<open>on_search_changed\<close>. The options added there are a
  sublist of the options the widget was composed from, whose ids are pairwise different,
  so the id check of the widget (see \<open>add_options\<close> below) never fires at this place;
  \<open>search_adds_no_duplicate\<close> proves it.
\<close>

definition add_option :: "repo list \<Rightarrow> repo \<Rightarrow> repo list" where
  "add_option ol opt = ol @ [opt]"

definition on_search_changed :: "repo_picker \<Rightarrow> string \<Rightarrow> repo_picker" where
  "on_search_changed s val =
     (let search_term = lower val;
          cleared = ([] :: repo list);
          filtered = [(name, url) \<leftarrow> repos s. str_in search_term (lower name)]
      in s\<lparr>filtered_repos := filtered, option_list := foldl add_option cleared filtered\<rparr>)"

text \<open>
  \<^verbatim>\<open>str(event.option.id) if event.option.id else None\<close>: an option's id is a string or
  \<^verbatim>\<open>None\<close>, and the empty string is falsy.
\<close>

definition tracked_id :: "string option \<Rightarrow> string option" where
  "tracked_id oid = (case oid of None \<Rightarrow> None | Some u \<Rightarrow> if u = [] then None else Some u)"

definition on_option_selected :: "repo_picker \<Rightarrow> string option \<Rightarrow> repo_picker" where
  "on_option_selected s oid = s\<lparr>selected_url := tracked_id oid\<rparr>"

definition on_option_highlighted :: "repo_picker \<Rightarrow> string option \<Rightarrow> repo_picker" where
  "on_option_highlighted s oid = s\<lparr>selected_url := tracked_id oid\<rparr>"

definition rp_on_select :: "repo_picker \<Rightarrow> repo_picker" where
  "rp_on_select s = s\<lparr>rp_dismissed := Some (selected_url s)\<rparr>"

definition rp_on_clear :: "repo_picker \<Rightarrow> repo_picker" where
  "rp_on_clear s = s\<lparr>rp_dismissed := Some (Some [])\<rparr>"

definition rp_action_cancel :: "repo_picker \<Rightarrow> repo_picker" where
  "rp_action_cancel s = s\<lparr>rp_dismissed := Some None\<rparr>"

text \<open>
  Opening the screen. The url is the id of an option, and Textual's \<^verbatim>\<open>OptionList\<close>
  refuses an option whose id it already holds: building the widget in \<^verbatim>\<open>compose\<close>
  raises \<^verbatim>\<open>DuplicateID\<close> when two candidates share a url. Nothing in the program
  catches it.
\<close>

datatype tui_error = DuplicateID

fun add_options :: "repo list \<Rightarrow> repo list \<Rightarrow> tui_error + repo list" where
  "add_options ol [] = Inr ol"
| "add_options ol (opt # opts) =
     (if snd opt \<in> set (map snd ol) then Inl DuplicateID
      else add_options (ol @ [opt]) opts)"

definition compose :: "repo_picker \<Rightarrow> tui_error + repo_picker" where
  "compose s =
     (case add_options [] (repos s) of
        Inl e \<Rightarrow> Inl e
      | Inr ol \<Rightarrow> Inr (s\<lparr>option_list := ol\<rparr>))"

text \<open>
  \<^verbatim>\<open>on_mount\<close> gives the focus to the search input, which changes nothing in this
  state. When the screen is mounted the list highlights its first option and posts
  \<^verbatim>\<open>OptionHighlighted\<close> for it, which \<open>on_option_highlighted\<close> handles.
\<close>

definition rp_on_mount :: "repo_picker \<Rightarrow> repo_picker" where
  "rp_on_mount s =
     (case option_list s of
        [] \<Rightarrow> s
      | opt # opts \<Rightarrow> on_option_highlighted s (Some (snd opt)))"

definition open_repo_picker :: "repo list \<Rightarrow> tui_error + repo_picker" where
  "open_repo_picker rs =
     (case compose (RepoPickerScreen rs) of
        Inl e \<Rightarrow> Inl e
      | Inr s \<Rightarrow> Inr (rp_on_mount s))"

text \<open>The events of the picker that do not close it, for statements about edit histories.\<close>

datatype rp_event =
    Search_changed string
  | Option_selected "string option"
  | Option_highlighted "string option"

fun rp_handle :: "repo_picker \<Rightarrow> rp_event \<Rightarrow> repo_picker" where
  "rp_handle s (Search_changed v) = on_search_changed s v"
| "rp_handle s (Option_selected oid) = on_option_selected s oid"
| "rp_handle s (Option_highlighted oid) = on_option_highlighted s oid"

section \<open>The main form\<close>

text \<open>
  \<^verbatim>\<open>SimpleDevEnvApp\<close>: its attributes, the widgets it updates (\<^verbatim>\<open>#target-dir-display\<close>,
  \<^verbatim>\<open>#repo-display\<close>, \<^verbatim>\<open>#status-bar\<close>, \<^verbatim>\<open>#log\<close>), the modal screen it pushed, and the
  terminal: the mode of the display, the lines printed while it is suspended, and the
  trace of what happened to the terminal.
\<close>

datatype ui_mode = INTERACTIVE_UI | FOREGROUND_PROCESS

datatype ui_event =
    Suspend
  | Spawn "string list" "string \<rightharpoonup> string" string
  | Exit int
  | Prompt
  | Resume

datatype modal = Directory_picker dir_picker | Repo_picker repo_picker

record app =
  script_dir :: path
  target_dir :: path
  github_repos :: "repo list"
  selected_repo :: string
  target_dir_display :: string
  repo_display :: string
  status_bar :: string
  log_lines :: "string list"
  pushed :: "modal option"
  ui_mode :: ui_mode
  terminal :: "string list"
  trace :: "ui_event list"

definition SimpleDevEnvApp :: "path \<Rightarrow> path \<Rightarrow> app" where
  "SimpleDevEnvApp home dir =
     (let td = joinpath home ''odoo_projects''
      in \<lparr>script_dir = dir, target_dir = td, github_repos = [], selected_repo = [],
          target_dir_display = path_str td, repo_display = ''(none)'', status_bar = ''Ready'',
          log_lines = [], pushed = None, ui_mode = INTERACTIVE_UI, terminal = [], trace = []\<rparr>)"

definition update_status :: "string \<Rightarrow> bool \<Rightarrow> bool \<Rightarrow> app \<Rightarrow> app" where
  "update_status message err success a =
     (if err then a\<lparr>status_bar := ''[bold red]'' @ message @ ''[/]''\<rparr>
      else if success then a\<lparr>status_bar := ''[bold green]'' @ message @ ''[/]''\<rparr>
      else a\<lparr>status_bar := ''[bold]'' @ message @ ''[/]''\<rparr>)"

definition on_browse :: "path \<Rightarrow> fs \<Rightarrow> app \<Rightarrow> app" where
  "on_browse home f a = a\<lparr>pushed := Some (Directory_picker (DirectoryPickerScreen home f (Some home)))\<rparr>"

definition on_directory_picked :: "path option \<Rightarrow> app \<Rightarrow> app" where
  "on_directory_picked r a =
     (case r of
        None \<Rightarrow> a
      | Some p \<Rightarrow> a\<lparr>target_dir := p, target_dir_display := path_str p\<rparr>)"

section \<open>Candidate Cache\<close>

text \<open>
  The two \<^verbatim>\<open>gh repo list\<close> calls are external. A call either raises
  \<^verbatim>\<open>FileNotFoundError\<close> (the tool is absent) or completes with a return code and an
  output; the output decodes to a list of (nameWithOwner, url) pairs, or decoding raises
  an exception with a message. The iteration order of a Python \<^verbatim>\<open>set\<close> is not
  determined by the program, so it is an input as well: \<open>set_iter\<close> maps a list to the
  sequence in which the set built from it is iterated.
\<close>

datatype gh_run = Gh_not_found | Gh_completed int "string + repo list"

record gh_world =
  personal_listing :: gh_run
  org_listing :: gh_run
  set_iter :: "repo list \<Rightarrow> repo list"

text \<open>What one iteration of \<^verbatim>\<open>set(xs)\<close> yields: every element of \<open>xs\<close>, once.\<close>

definition py_set_iter :: "repo list \<Rightarrow> repo list \<Rightarrow> bool" where
  "py_set_iter xs it = (distinct it \<and> set it = set xs)"

datatype load_error = FileNotFoundError | Exception string

text \<open>One call and what it adds to \<^verbatim>\<open>all_repos\<close>.\<close>

definition gh_repo_list :: "gh_run \<Rightarrow> load_error + repo list" where
  "gh_repo_list r =
     (case r of
        Gh_not_found \<Rightarrow> Inl FileNotFoundError
      | Gh_completed rc out \<Rightarrow>
          if rc = 0 then (case out of Inl msg \<Rightarrow> Inl (Exception msg) | Inr rs \<Rightarrow> Inr rs)
          else Inr [])"

definition load_all_repos :: "gh_world \<Rightarrow> load_error + repo list" where
  "load_all_repos w =
     (case gh_repo_list (personal_listing w) of
        Inl e \<Rightarrow> Inl e
      | Inr xs \<Rightarrow>
          (case gh_repo_list (org_listing w) of
             Inl e \<Rightarrow> Inl e
           | Inr ys \<Rightarrow> Inr (xs @ ys)))"

text \<open>\<^verbatim>\<open>sorted(set(all_repos), key=lambda x: x[0].lower())\<close>; \<^verbatim>\<open>sorted\<close> is stable.\<close>

definition sorted_set :: "gh_world \<Rightarrow> repo list \<Rightarrow> repo list" where
  "sorted_set w all_repos = sort_key (\<lambda>x. lower (fst x)) (set_iter w all_repos)"

text \<open>
  \<^verbatim>\<open>self.push_screen(RepoPickerScreen(self.github_repos), self.on_repo_picked)\<close>. It is
  outside the \<^verbatim>\<open>try\<close> block, so a \<^verbatim>\<open>DuplicateID\<close> of the picker ends the handler.
\<close>

definition push_repo_picker :: "app \<Rightarrow> tui_error + app" where
  "push_repo_picker a =
     (case open_repo_picker (github_repos a) of
        Inl e \<Rightarrow> Inl e
      | Inr s \<Rightarrow> Inr (a\<lparr>pushed := Some (Repo_picker s)\<rparr>))"

text \<open>
  The body of \<^verbatim>\<open>if not self.github_repos:\<close>. The flag is \<open>False\<close> where the source
  returns from the handler and \<open>True\<close> where it goes on to push the picker.
\<close>

definition load_github_repos :: "gh_world \<Rightarrow> app \<Rightarrow> app \<times> bool" where
  "load_github_repos w a =
     (let a1 = update_status ''Loading GitHub repos...'' False False a
      in case load_all_repos w of
           Inl FileNotFoundError \<Rightarrow>
             (update_status ''gh CLI not found. Install it from https://cli.github.com''
                True False a1, False)
         | Inl (Exception msg) \<Rightarrow>
             (update_status (''Error loading repos: '' @ msg) True False a1, False)
         | Inr all_repos \<Rightarrow>
             if all_repos = [] then
               (update_status ''Failed to load repos. Is gh authenticated?'' True False a1, False)
             else
               (let a2 = a1\<lparr>github_repos := sorted_set w all_repos\<rparr>
                in (update_status
                      (''Loaded '' @ str_nat (length (github_repos a2)) @ '' repos'')
                      False False a2, True)))"

definition on_select_repo :: "gh_world \<Rightarrow> app \<Rightarrow> tui_error + app" where
  "on_select_repo w a =
     (if github_repos a = [] then
        (case load_github_repos w a of
           (a', go_on) \<Rightarrow> if go_on then push_repo_picker a' else Inr a')
      else push_repo_picker a)"

text \<open>\<^verbatim>\<open>next((n for n, u in self.github_repos if u == url), url)\<close>.\<close>

definition name_for_url :: "repo list \<Rightarrow> string \<Rightarrow> string" where
  "name_for_url rs url = (case find (\<lambda>(n, u). u = url) rs of Some (n, u) \<Rightarrow> n | None \<Rightarrow> url)"

definition on_repo_picked :: "string option \<Rightarrow> app \<Rightarrow> app" where
  "on_repo_picked r a =
     (case r of
        None \<Rightarrow> a
      | Some url \<Rightarrow>
          (let a1 = a\<lparr>selected_repo := url\<rparr>
           in if url \<noteq> [] then a1\<lparr>repo_display := name_for_url (github_repos a1) url\<rparr>
              else a1\<lparr>repo_display := ''(none)''\<rparr>))"

section \<open>Execution Handoff\<close>

text \<open>
  The provisioning script is external: whether \<^verbatim>\<open>create.sh\<close> exists, the environment
  of the process and the exit status of the script are inputs. The model covers the runs
  in which \<^verbatim>\<open>bash\<close> starts and the script exits with a status; a failure to start the
  process is an exception that \<^verbatim>\<open>run_setup\<close> does not handle.
\<close>

record setup_world =
  script_exists :: bool
  os_environ :: "string \<rightharpoonup> string"
  returncode :: int

text \<open>
  Modelled from the spec: \<^verbatim>\<open>App.suspend\<close> is Textual's context manager and not part of
  this repository. After section 4.5, entering it tears the interactive display down and
  hands the terminal to the foreground (INTERACTIVE_UI to FOREGROUND_PROCESS), and leaving
  it resumes the display.
\<close>

definition suspend_enter :: "app \<Rightarrow> app" where
  "suspend_enter a = a\<lparr>ui_mode := FOREGROUND_PROCESS, trace := trace a @ [Suspend]\<rparr>"

definition suspend_exit :: "app \<Rightarrow> app" where
  "suspend_exit a = a\<lparr>ui_mode := INTERACTIVE_UI, trace := trace a @ [Resume]\<rparr>"

definition py_print :: "string \<Rightarrow> app \<Rightarrow> app" where
  "py_print line a = a\<lparr>terminal := terminal a @ [line]\<rparr>"

text \<open>\<^verbatim>\<open>input()\<close>: waits for the operator to press Enter.\<close>

definition py_input :: "app \<Rightarrow> app" where
  "py_input a = a\<lparr>trace := trace a @ [Prompt]\<rparr>"

text \<open>\<^verbatim>\<open>subprocess.run(argv, env=env, cwd=cwd)\<close>: returns when the process has exited.\<close>

definition subprocess_run ::
  "setup_world \<Rightarrow> string list \<Rightarrow> (string \<rightharpoonup> string) \<Rightarrow> string \<Rightarrow> app \<Rightarrow> int \<times> app" where
  "subprocess_run w argv env dir a =
     (returncode w, a\<lparr>trace := trace a @ [Spawn argv env dir, Exit (returncode w)]\<rparr>)"

definition banner :: string where
  "banner = replicate 60 CHR ''=''"

definition setup_env ::
  "(string \<rightharpoonup> string) \<Rightarrow> path \<Rightarrow> string \<Rightarrow> bool \<Rightarrow> string \<Rightarrow> (string \<rightharpoonup> string)" where
  "setup_env environ td db_name install_precommit clone_repo =
     (let env = environ(''BASE_PATH'' \<mapsto> path_str td);
          env = (if db_name \<noteq> [] then env(''DB_NAME'' \<mapsto> db_name) else env);
          env = (if install_precommit then env(''INSTALL_PRECOMMIT'' \<mapsto> ''1'') else env);
          env = (if clone_repo \<noteq> [] then env(''CLONE_REPO'' \<mapsto> clone_repo) else env)
      in env)"

text \<open>The body of \<^verbatim>\<open>with self.suspend():\<close>, with the value bound to \<^verbatim>\<open>result.returncode\<close>.\<close>

definition suspended_run ::
  "setup_world \<Rightarrow> path \<Rightarrow> string \<Rightarrow> string \<Rightarrow> (string \<rightharpoonup> string) \<Rightarrow> string \<Rightarrow> app \<Rightarrow> int \<times> app" where
  "suspended_run w script_path project_name odoo_version env clone_repo a0 =
     (let a = suspend_enter a0;
          a = py_print (CHR 0x0A # banner) a;
          a = py_print (''Setting up '' @ project_name @ '' with Odoo '' @ odoo_version) a;
          a = py_print (''Target: '' @ path_str (target_dir a)) a;
          a = (if clone_repo \<noteq> [] then py_print (''Clone repo: '' @ clone_repo) a else a);
          a = py_print (banner @ [CHR 0x0A]) a;
          (rc, a) = subprocess_run w [''bash'', path_str script_path, project_name, odoo_version]
                      env (path_str (script_dir a)) a;
          a = py_print (CHR 0x0A # banner) a;
          a = (if rc = 0 then py_print ''Setup completed successfully!'' a
               else py_print (''Setup failed with exit code '' @ str_int rc) a);
          a = py_print ''Press Enter to return to the TUI...'' a;
          a = py_input a;
          a = suspend_exit a
      in (rc, a))"

definition log_write_line :: "string \<Rightarrow> app \<Rightarrow> app" where
  "log_write_line line a = a\<lparr>log_lines := log_lines a @ [line]\<rparr>"

definition run_setup ::
  "setup_world \<Rightarrow> string \<Rightarrow> string \<Rightarrow> string \<Rightarrow> bool \<Rightarrow> string \<Rightarrow> app \<Rightarrow> app" where
  "run_setup w project_name odoo_version db_name install_precommit clone_repo a0 =
     (let script_path = joinpath (script_dir a0) ''create.sh''
      in if \<not> script_exists w then update_status ''Setup script not found!'' True False a0
         else
           (let env = setup_env (os_environ w) (target_dir a0) db_name install_precommit clone_repo;
                (rc, a) = suspended_run w script_path project_name odoo_version env clone_repo a0;
                a = a\<lparr>log_lines := []\<rparr>
            in if rc = 0 then
                 update_status ''Environment created successfully!'' False True
                   (log_write_line (''Setup completed for '' @ project_name) a)
               else
                 update_status (''Setup failed (exit code '' @ str_int rc @ '')'') True False
                   (log_write_line (''Setup failed with exit code '' @ str_int rc) a)))"

section \<open>Concrete inputs\<close>

text \<open>
  The inputs of the examples: a filesystem holding \<^verbatim>\<open>/\<close> and \<^verbatim>\<open>/root\<close>, one in which
  \<^verbatim>\<open>/root/a\<close> exists and is read-only, a directory picker opened on \<^verbatim>\<open>/root\<close> in which
  \<^verbatim>\<open>/root/a\<close> was selected and \<^verbatim>\<open>sub\<close> typed as the new folder's name, two listings
  whose merge is \<^verbatim>\<open>[("x","u1"), ("y","u1"), ("z","u2")]\<close>, and two listings that both
  hold the repository \<^verbatim>\<open>("x","u1")\<close>, whose merge is
  \<^verbatim>\<open>[("x","u1"), ("x","u1"), ("z","u2")]\<close>.
\<close>

definition example_fs :: fs where
  "example_fs = \<lparr>nodes = [[] \<mapsto> Dir True, [''root''] \<mapsto> Dir True], cwd = []\<rparr>"

definition readonly_fs :: fs where
  "readonly_fs =
     \<lparr>nodes = [[] \<mapsto> Dir True, [''root''] \<mapsto> Dir True, [''root'', ''a''] \<mapsto> Dir False],
      cwd = []\<rparr>"

definition example_picker :: "fs \<Rightarrow> dir_picker" where
  "example_picker f =
     (on_directory_selected (DirectoryPickerScreen (Path ''/'' [''root'']) f None)
        (Path ''/'' [''root'', ''a'']))\<lparr>new_folder_input := ''sub''\<rparr>"

definition example_gh_world :: gh_world where
  "example_gh_world =
     \<lparr>personal_listing = Gh_completed 0 (Inr [(''x'', ''u1''), (''y'', ''u1'')]),
      org_listing = Gh_completed 0 (Inr [(''z'', ''u2'')]),
      set_iter = remdups\<rparr>"

definition overlap_gh_world :: gh_world where
  "overlap_gh_world =
     \<lparr>personal_listing = Gh_completed 0 (Inr [(''x'', ''u1'')]),
      org_listing = Gh_completed 0 (Inr [(''x'', ''u1''), (''z'', ''u2'')]),
      set_iter = remdups\<rparr>"

section \<open>Notions of the specification\<close>

text \<open>
  The specification's own words, for comparison with the code: an entry is hidden when
  its name starts with the marker \<open>''.''\<close>, a query matches a display name when
  some contiguous run of the name equals the query up to letter case, and an identifier
  addresses one repository: in a listing, entries with one identifier have one name.
\<close>

definition one_name_per_id :: "repo list \<Rightarrow> bool" where
  "one_name_per_id rs = distinct (map snd (remdups rs))"

definition is_hidden :: "path \<Rightarrow> bool" where
  "is_hidden p = prefix ''.'' (path_name p)"

definition ci_substring :: "string \<Rightarrow> string \<Rightarrow> bool" where
  "ci_substring q name = (\<exists>pre w post. name = pre @ w @ post \<and> lower w = lower q)"

section \<open>Properties of strings\<close>

lemma startswith_prefix: "startswith s p \<longleftrightarrow> prefix p s"
  by (induction s p rule: startswith.induct) auto

lemma str_in_sublist: "str_in needle hay \<longleftrightarrow> sublist needle hay"
  by (induction hay) (auto simp: startswith_prefix sublist_Cons_right)

lemma sublist_map_iff:
  "sublist (map f q) (map f n) \<longleftrightarrow> (\<exists>pre w post. n = pre @ w @ post \<and> map f w = map f q)"
proof
  assume "sublist (map f q) (map f n)"
  then obtain ps ss where "map f n = ps @ map f q @ ss"
    by (auto simp: sublist_def)
  then have "\<exists>us vs. n = us @ vs \<and> ps = map f us \<and> map f q @ ss = map f vs"
    by (simp only: map_eq_append_conv)
  then obtain pre rest where n: "n = pre @ rest" and r: "map f q @ ss = map f rest"
    by blast
  from r have "\<exists>us vs. rest = us @ vs \<and> map f q = map f us \<and> ss = map f vs"
    by (simp only: append_eq_map_conv)
  then obtain w post where "rest = w @ post" and "map f w = map f q"
    by auto
  with n show "\<exists>pre w post. n = pre @ w @ post \<and> map f w = map f q"
    by blast
next
  assume "\<exists>pre w post. n = pre @ w @ post \<and> map f w = map f q"
  then obtain pre w post where "n = pre @ w @ post" and "map f w = map f q"
    by blast
  then have "map f n = map f pre @ map f q @ map f post"
    by simp
  then show "sublist (map f q) (map f n)"
    unfolding sublist_def by blast
qed

lemma str_in_lower: "str_in (lower q) (lower name) \<longleftrightarrow> ci_substring q name"
  by (simp add: str_in_sublist ci_substring_def lower_def sublist_map_iff)

lemma strip_Nil: "strip [] = []"
  by (simp add: strip_def)

lemma digit_val_digit_char: "d < 10 \<Longrightarrow> digit_val (digit_char d) = d"
  by (simp add: digit_val_def digit_char_def)

lemma nat_of_str_snoc: "nat_of_str (s @ [c]) = 10 * nat_of_str s + digit_val c"
  by (simp add: nat_of_str_def)

lemma nat_of_str_str_nat: "nat_of_str (str_nat n) = n"
proof (induction n rule: str_nat.induct)
  case (1 n)
  show ?case
  proof (cases "n < 10")
    case True
    then show ?thesis
      by (subst str_nat.simps) (simp add: nat_of_str_def digit_val_digit_char)
  next
    case False
    with "1" have "nat_of_str (str_nat (n div 10)) = n div 10"
      by simp
    with False show ?thesis
      by (subst str_nat.simps) (simp add: nat_of_str_snoc digit_val_digit_char)
  qed
qed

lemma digit_char_not_minus: "d < 10 \<Longrightarrow> digit_char d \<noteq> CHR ''-''"
proof
  assume "d < 10" and "digit_char d = CHR ''-''"
  then have "(of_char (digit_char d) :: nat) = of_char (CHR ''-'')"
    by simp
  with \<open>d < 10\<close> show False
    by (simp add: digit_char_def)
qed

lemma hd_str_nat: "\<exists>d cs. d < 10 \<and> str_nat n = digit_char d # cs"
proof (induction n rule: str_nat.induct)
  case (1 n)
  show ?case
  proof (cases "n < 10")
    case True
    then show ?thesis
      by (subst str_nat.simps) auto
  next
    case False
    with "1" obtain d cs where "d < 10" "str_nat (n div 10) = digit_char d # cs"
      by auto
    with False show ?thesis
      by (subst str_nat.simps) auto
  qed
qed

lemma int_of_str_str_int: "int_of_str (str_int i) = i"
proof (cases "i < 0")
  case True
  then show ?thesis
    by (simp add: int_of_str_def str_int_def nat_of_str_str_nat)
next
  case False
  obtain d cs where d: "d < 10" "str_nat (nat i) = digit_char d # cs"
    using hd_str_nat by blast
  have "nat_of_str (digit_char d # cs) = nat i"
    using nat_of_str_str_nat [of "nat i"] d by simp
  with False d show ?thesis
    by (simp add: int_of_str_def str_int_def digit_char_not_minus)
qed

section \<open>Path Filter: properties\<close>

text \<open>
  Claim C9. For every sequence of directory entries, \<open>filter_paths\<close> returns exactly the
  entries that are not hidden, unmodified and in their original order: the result is the
  input filtered by the negation of \<open>is_hidden\<close>, it is a subsequence of the input, and
  its elements are the input's elements minus the hidden ones.
\<close>

theorem filter_paths_spec:
  "filter_paths ps = filter (\<lambda>p. \<not> is_hidden p) ps
   \<and> subseq (filter_paths ps) ps
   \<and> set (filter_paths ps) = set ps - {p. is_hidden p}"
  by (auto simp: filter_paths_def is_hidden_def startswith_prefix)

section \<open>Directory Picker: properties\<close>

lemma selected_foldl:
  "selected_path (foldl on_directory_selected s (ps @ [P])) = Some P"
  by (simp add: on_directory_selected_def)

text \<open>
  Claim C4. For every start path: Select on a freshly opened picker dismisses with the
  start path; Select after any sequence of tree selections ending with \<open>P\<close> dismisses
  with \<open>P\<close>; Cancel (button or escape, both bound to \<open>dp_action_cancel\<close>) dismisses
  with \<open>None\<close>; and no Select result equals a Cancel result.
\<close>

theorem directory_picker_results:
  "dismissed (dp_on_select (DirectoryPickerScreen home f (Some sp))) = Some (Some sp)
   \<and> dismissed (dp_on_select
        (foldl on_directory_selected (DirectoryPickerScreen home f (Some sp)) (ps @ [P])))
       = Some (Some P)
   \<and> dismissed (dp_action_cancel s) = Some None
   \<and> dismissed (dp_on_select s') \<noteq> dismissed (dp_action_cancel s)"
  by (simp add: dp_on_select_def dp_action_cancel_def selected_or_start_def
      DirectoryPickerScreen_def selected_foldl del: foldl_append)

subsection \<open>Creating directories\<close>

lemma walk_append:
  "walk ns cur (xs @ ys) = (case walk ns cur xs of Inl e \<Rightarrow> Inl e | Inr d \<Rightarrow> walk ns d ys)"
  by (induction xs arbitrary: cur) (auto split: option.splits node.splits)

lemma walk_upd:
  "walk ns cur cs = Inr d \<Longrightarrow> ns k = None \<Longrightarrow> walk (ns(k \<mapsto> n)) cur cs = Inr d"
  by (induction cs arbitrary: cur) (auto split: option.splits node.splits if_splits)

lemma start_dir_nodes_update: "start_dir (f\<lparr>nodes := ns\<rparr>) p = start_dir f p"
  by (simp add: start_dir_def)

lemma os_mkdir_is_dir:
  assumes "os_mkdir f p = Inr f'"
  shows "is_dir f' p"
proof -
  from assms have ne: "path_parts p \<noteq> []"
    by (auto simp: os_mkdir_def split: if_splits)
  from assms ne obtain d where
    w: "walk (nodes f) (start_dir f p) (butlast (path_parts p)) = Inr d"
    by (auto simp: os_mkdir_def split: sum.splits)
  let ?c = "last (path_parts p)"
  from assms ne w have c: "?c \<noteq> ''..''" "\<not> 255 < length ?c"
    and fresh: "nodes f (d @ [?c]) = None"
    and f': "f' = f\<lparr>nodes := (nodes f)(d @ [?c] \<mapsto> Dir True)\<rparr>"
    by (auto simp: os_mkdir_def Let_def split: if_splits option.splits node.splits)
  have "walk (nodes f') (start_dir f' p) (butlast (path_parts p)) = Inr d"
    using walk_upd [OF w fresh] by (simp add: f' start_dir_nodes_update)
  then have "walk (nodes f') (start_dir f' p) (butlast (path_parts p) @ [?c]) = Inr (d @ [?c])"
    using c by (simp add: walk_append f')
  with ne show ?thesis
    by (simp add: is_dir_def f')
qed

lemma is_dir_os_mkdir:
  assumes "is_dir f p"
  shows "os_mkdir f p = Inl (OSError EEXIST p)"
proof (cases "path_parts p = []")
  case True
  then show ?thesis by (simp add: os_mkdir_def)
next
  case False
  let ?c = "last (path_parts p)"
  from False have split: "path_parts p = butlast (path_parts p) @ [?c]"
    by simp
  from assms obtain d' where "walk (nodes f) (start_dir f p) (path_parts p) = Inr d'"
    by (auto simp: is_dir_def split: sum.splits)
  then have full: "walk (nodes f) (start_dir f p) (butlast (path_parts p) @ [?c]) = Inr d'"
    using split by simp
  then obtain d where w: "walk (nodes f) (start_dir f p) (butlast (path_parts p)) = Inr d"
    and l: "walk (nodes f) d [?c] = Inr d'"
    by (auto simp: walk_append split: sum.splits)
  from l have "?c = ''..'' \<or> (\<not> 255 < length ?c \<and> (\<exists>n. nodes f (d @ [?c]) = Some n))"
    by (auto split: if_splits option.splits)
  with False w show ?thesis
    by (auto simp: os_mkdir_def Let_def)
qed

lemma mkdir_parents_is_dir:
  assumes "mkdir_parents f p = (f', None)"
  shows "is_dir f' p"
  using assms
  by (subst (asm) mkdir_parents.simps)
    (auto simp: mkdir_exist_ok_def os_mkdir_is_dir
      split: sum.splits if_splits prod.splits option.splits)

lemma mkdir_parents_existing:
  assumes "is_dir f p"
  shows "mkdir_parents f p = (f, None)"
  using assms
  by (subst mkdir_parents.simps)
    (simp add: is_dir_os_mkdir is_enoent_def mkdir_exist_ok_def)

lemma mkdir_parents_idem:
  "mkdir_parents f p = (f', None) \<Longrightarrow> mkdir_parents f' p = (f', None)"
  by (simp add: mkdir_parents_is_dir mkdir_parents_existing)

subsection \<open>Folder creation in the picker\<close>

lemma on_create_folder_failure:
  assumes "strip (new_folder_input s) \<noteq> []"
    and "snd (mkdir_parents f (joinpath (selected_or_start s) (strip (new_folder_input s)))) = Some e"
  shows "snd (on_create_folder f s) = s\<lparr>selected_path_readout := Error e\<rparr>"
  using assms by (auto simp: on_create_folder_def Let_def split: prod.splits option.splits)

text \<open>
  Claim C6. When the directory creation fails with an \<^verbatim>\<open>OSError\<close>, the handler only
  puts the error into the readout: the picker state is otherwise the state before, so
  the current selection and the start path are unchanged, the picker is not dismissed,
  and a later Select gives the result it would have given before.
\<close>

theorem create_folder_failure:
  assumes "strip (new_folder_input s) \<noteq> []"
    and "snd (mkdir_parents f (joinpath (selected_or_start s) (strip (new_folder_input s)))) = Some e"
  shows "snd (on_create_folder f s) = s\<lparr>selected_path_readout := Error e\<rparr>
    \<and> selected_path (snd (on_create_folder f s)) = selected_path s
    \<and> start_path (snd (on_create_folder f s)) = start_path s
    \<and> dismissed (snd (on_create_folder f s)) = dismissed s
    \<and> dismissed (dp_on_select (snd (on_create_folder f s))) = dismissed (dp_on_select s)"
  by (simp add: on_create_folder_failure [OF assms] dp_on_select_def selected_or_start_def
      split: option.splits)

theorem create_folder_failure_witness:
  "strip (new_folder_input (example_picker readonly_fs)) \<noteq> []
   \<and> snd (mkdir_parents readonly_fs
        (joinpath (selected_or_start (example_picker readonly_fs))
           (strip (new_folder_input (example_picker readonly_fs)))))
       = Some (OSError EACCES (Path ''/'' [''root'', ''a'', ''sub'']))
   \<and> selected_path_readout (snd (on_create_folder readonly_fs (example_picker readonly_fs)))
       = Error (OSError EACCES (Path ''/'' [''root'', ''a'', ''sub'']))
   \<and> selected_path (snd (on_create_folder readonly_fs (example_picker readonly_fs)))
       = Some (Path ''/'' [''root'', ''a''])
   \<and> dismissed (snd (on_create_folder readonly_fs (example_picker readonly_fs))) = None"
proof -
  have h1: "strip (new_folder_input (example_picker readonly_fs)) \<noteq> []"
    by code_simp
  have h2: "snd (mkdir_parents readonly_fs
        (joinpath (selected_or_start (example_picker readonly_fs))
           (strip (new_folder_input (example_picker readonly_fs)))))
       = Some (OSError EACCES (Path ''/'' [''root'', ''a'', ''sub'']))"
    by code_simp
  have sel: "selected_path (example_picker readonly_fs) = Some (Path ''/'' [''root'', ''a''])"
    and dis: "dismissed (example_picker readonly_fs) = None"
    by (simp_all add: example_picker_def on_directory_selected_def DirectoryPickerScreen_def Let_def)
  from create_folder_failure [OF h1 h2] h1 h2 sel dis show ?thesis
    by simp
qed

lemma on_create_folder_success:
  assumes "strip (new_folder_input s) \<noteq> []"
    and "mkdir_parents f (joinpath (selected_or_start s) (strip (new_folder_input s))) = (f', None)"
  shows "on_create_folder f s =
     (f', s\<lparr>selected_path := Some (joinpath (selected_or_start s) (strip (new_folder_input s))),
            selected_path_readout :=
              Created_and_Selected (joinpath (selected_or_start s) (strip (new_folder_input s))),
            new_folder_input := [],
            tree_nodes := nodes f'\<rparr>)"
  using assms by (simp add: on_create_folder_def Let_def)

text \<open>
  The statement of claim C5 fails at its own example: after \<^verbatim>\<open>sub\<close> was created under
  \<^verbatim>\<open>/root/a\<close>, the selection is \<^verbatim>\<open>/root/a/sub\<close>, and confirming \<^verbatim>\<open>sub\<close> again creates
  and selects \<^verbatim>\<open>/root/a/sub/sub\<close>.
\<close>

theorem create_folder_twice_counterexample:
  "selected_path
     (snd (on_create_folder (fst (on_create_folder example_fs (example_picker example_fs)))
        ((snd (on_create_folder example_fs (example_picker example_fs)))
           \<lparr>new_folder_input := ''sub''\<rparr>)))
     = Some (Path ''/'' [''root'', ''a'', ''sub'', ''sub''])
   \<and> selected_path
     (snd (on_create_folder (fst (on_create_folder example_fs (example_picker example_fs)))
        ((snd (on_create_folder example_fs (example_picker example_fs)))
           \<lparr>new_folder_input := ''sub''\<rparr>)))
     \<noteq> Some (Path ''/'' [''root'', ''a'', ''sub''])"
  by code_simp


text \<open>
  Claim C5, as amended. A successful creation of \<open>name\<close> under the current selection
  (or the start path) selects \<open>parent / name\<close>, which is then a directory, and clears
  the input. Repeating the same creation, that is with the selection put back to what it
  was and the same name entered, does not fail and gives the same filesystem and the
  same picker state as the first creation. Pressing the button again on the cleared input
  changes nothing.
\<close>

theorem create_folder_selects_and_repeats:
  assumes "strip (new_folder_input s) \<noteq> []"
    and "snd (mkdir_parents f (joinpath (selected_or_start s) (strip (new_folder_input s)))) = None"
  shows "selected_path (snd (on_create_folder f s))
      = Some (joinpath (selected_or_start s) (strip (new_folder_input s)))
    \<and> is_dir (fst (on_create_folder f s))
        (joinpath (selected_or_start s) (strip (new_folder_input s)))
    \<and> new_folder_input (snd (on_create_folder f s)) = []
    \<and> on_create_folder (fst (on_create_folder f s))
        ((snd (on_create_folder f s))
           \<lparr>selected_path := selected_path s, new_folder_input := new_folder_input s\<rparr>)
      = on_create_folder f s
    \<and> on_create_folder (fst (on_create_folder f s)) (snd (on_create_folder f s))
      = on_create_folder f s"
proof -
  define p where "p = joinpath (selected_or_start s) (strip (new_folder_input s))"
  obtain f' where m: "mkdir_parents f p = (f', None)"
    using assms(2) unfolding p_def
    by (cases "mkdir_parents f (joinpath (selected_or_start s) (strip (new_folder_input s)))") simp
  define s' where "s' = s\<lparr>selected_path := Some p, selected_path_readout := Created_and_Selected p,
    new_folder_input := [], tree_nodes := nodes f'\<rparr>"
  have first: "on_create_folder f s = (f', s')"
    using on_create_folder_success [OF assms(1) m [unfolded p_def]]
    by (simp add: s'_def p_def)
  define again where
    "again = s'\<lparr>selected_path := selected_path s, new_folder_input := new_folder_input s\<rparr>"
  have par: "selected_or_start again = selected_or_start s"
    and inp: "new_folder_input again = new_folder_input s"
    by (simp_all add: again_def s'_def selected_or_start_def split: option.splits)
  have ne2: "strip (new_folder_input again) \<noteq> []"
    using assms(1) by (simp add: inp)
  have m2: "mkdir_parents f' (joinpath (selected_or_start again) (strip (new_folder_input again)))
      = (f', None)"
    using mkdir_parents_idem [OF m] by (simp only: par inp p_def)
  have "on_create_folder f' again =
      (f', again\<lparr>selected_path := Some p, selected_path_readout := Created_and_Selected p,
                 new_folder_input := [], tree_nodes := nodes f'\<rparr>)"
    using on_create_folder_success [OF ne2 m2] by (simp only: par inp p_def)
  also have "again\<lparr>selected_path := Some p, selected_path_readout := Created_and_Selected p,
                 new_folder_input := [], tree_nodes := nodes f'\<rparr> = s'"
    by (simp add: again_def s'_def)
  finally have second: "on_create_folder f' again = (f', s')" .
  have sel: "selected_path s' = Some p" and cleared: "new_folder_input s' = []"
    by (simp_all add: s'_def)
  have third: "on_create_folder f' s' = (f', s')"
    by (simp add: on_create_folder_def cleared strip_Nil)
  have "is_dir f' p"
    using mkdir_parents_is_dir [OF m] .
  with sel cleared show ?thesis
    using second third by (simp add: first again_def [symmetric] p_def [symmetric])
qed

theorem create_folder_selects_and_repeats_witness:
  "strip (new_folder_input (example_picker example_fs)) \<noteq> []
   \<and> snd (mkdir_parents example_fs
        (joinpath (selected_or_start (example_picker example_fs))
           (strip (new_folder_input (example_picker example_fs))))) = None
   \<and> selected_path (snd (on_create_folder example_fs (example_picker example_fs)))
       = Some (Path ''/'' [''root'', ''a'', ''sub''])
   \<and> is_dir (fst (on_create_folder example_fs (example_picker example_fs)))
        (Path ''/'' [''root'', ''a'', ''sub''])
   \<and> on_create_folder (fst (on_create_folder example_fs (example_picker example_fs)))
        ((snd (on_create_folder example_fs (example_picker example_fs)))
           \<lparr>selected_path := Some (Path ''/'' [''root'', ''a'']), new_folder_input := ''sub''\<rparr>)
      = on_create_folder example_fs (example_picker example_fs)"
proof -
  have h1: "strip (new_folder_input (example_picker example_fs)) \<noteq> []"
    by code_simp
  have h2: "snd (mkdir_parents example_fs
        (joinpath (selected_or_start (example_picker example_fs))
           (strip (new_folder_input (example_picker example_fs))))) = None"
    by code_simp
  have p: "joinpath (selected_or_start (example_picker example_fs)) (strip ''sub'')
         = Path ''/'' [''root'', ''a'', ''sub'']"
    by code_simp
  have sel: "selected_path (example_picker example_fs) = Some (Path ''/'' [''root'', ''a''])"
    and inp: "new_folder_input (example_picker example_fs) = ''sub''"
    by (simp_all add: example_picker_def on_directory_selected_def DirectoryPickerScreen_def Let_def)
  from create_folder_selects_and_repeats [OF h1 h2] h1 h2 show ?thesis
    by (simp add: inp sel p)
qed

section \<open>Repository Picker: properties\<close>

lemma foldl_add_option: "foldl add_option acc xs = acc @ xs"
  by (induction xs arbitrary: acc) (auto simp: add_option_def)

lemma on_search_changed_fields:
  "repos (on_search_changed s v) = repos s"
  "filtered_repos (on_search_changed s v)
     = [(name, url) \<leftarrow> repos s. str_in (lower v) (lower name)]"
  "option_list (on_search_changed s v)
     = [(name, url) \<leftarrow> repos s. str_in (lower v) (lower name)]"
  "selected_url (on_search_changed s v) = selected_url s"
  "rp_dismissed (on_search_changed s v) = rp_dismissed s"
  by (simp_all add: on_search_changed_def Let_def foldl_add_option)

lemma repos_rp_handle: "repos (rp_handle s ev) = repos s"
  by (cases ev)
    (simp_all add: on_search_changed_fields on_option_selected_def on_option_highlighted_def)

lemma repos_foldl_rp_handle: "repos (foldl rp_handle s evs) = repos s"
  by (induction evs arbitrary: s) (simp_all add: repos_rp_handle)

text \<open>
  Claim C7. The visible subset depends on the current query and the full candidate list
  only: typing \<open>''ab''\<close> and then \<open>''a''\<close> shows what typing \<open>''a''\<close> shows; after any
  history of events that ends with the query \<open>q\<close>, the visible subset and the list widget
  are the candidates whose name contains \<open>q\<close> as a substring, case ignored
  (\<open>ci_substring\<close>), in the order of the full list; and a freshly opened picker shows every candidate.
\<close>

theorem filtering_history_independent:
  "filtered_repos (on_search_changed (on_search_changed s ''ab'') ''a'')
     = filtered_repos (on_search_changed s ''a'')
   \<and> filtered_repos (foldl rp_handle s (evs @ [Search_changed q]))
     = [(name, url) \<leftarrow> repos s. ci_substring q name]
   \<and> option_list (foldl rp_handle s (evs @ [Search_changed q]))
     = [(name, url) \<leftarrow> repos s. ci_substring q name]
   \<and> filtered_repos (RepoPickerScreen rs) = rs"
  by (simp add: on_search_changed_fields repos_foldl_rp_handle str_in_lower RepoPickerScreen_def)

text \<open>
  Claim C8. In every state of the picker, Clear dismisses with the empty string and
  Cancel dismisses with \<open>None\<close>. A Select after highlighting or activating an option with
  a non-empty identifier \<open>u\<close> dismisses with \<open>u\<close>, and the three results are pairwise
  different.
\<close>

theorem repo_picker_clear_cancel:
  assumes "u \<noteq> []"
  shows "rp_dismissed (rp_on_clear s) = Some (Some [])
   \<and> rp_dismissed (rp_action_cancel s) = Some None
   \<and> rp_dismissed (rp_on_select (on_option_highlighted s (Some u))) = Some (Some u)
   \<and> rp_dismissed (rp_on_select (on_option_selected s (Some u))) = Some (Some u)
   \<and> rp_dismissed (rp_action_cancel s1) \<noteq> rp_dismissed (rp_on_clear s2)
   \<and> rp_dismissed (rp_on_select (on_option_highlighted s (Some u)))
       \<noteq> rp_dismissed (rp_on_clear s2)
   \<and> rp_dismissed (rp_on_select (on_option_highlighted s (Some u)))
       \<noteq> rp_dismissed (rp_action_cancel s1)"
  using assms
  by (simp add: rp_on_clear_def rp_action_cancel_def rp_on_select_def
      on_option_highlighted_def on_option_selected_def tracked_id_def)

theorem repo_picker_clear_cancel_witness:
  "''u1'' \<noteq> []
   \<and> rp_dismissed (rp_on_clear (RepoPickerScreen [(''x'', ''u1'')])) = Some (Some [])
   \<and> rp_dismissed (rp_action_cancel (RepoPickerScreen [(''x'', ''u1'')])) = Some None
   \<and> rp_dismissed
        (rp_on_select (on_option_highlighted (RepoPickerScreen [(''x'', ''u1'')]) (Some ''u1'')))
       = Some (Some ''u1'')"
  using repo_picker_clear_cancel [of "''u1''" "RepoPickerScreen [(''x'', ''u1'')]"]
  by simp

subsection \<open>Opening the picker\<close>

text \<open>
  The picker opens exactly on the candidate lists whose urls are pairwise different; the
  opened picker shows every candidate and tracks the url of the first one.
\<close>

lemma add_options_Inr:
  "add_options ol xs = Inr r \<Longrightarrow> distinct (map snd ol) \<Longrightarrow>
     r = ol @ xs \<and> distinct (map snd (ol @ xs))"
proof (induction xs arbitrary: ol)
  case Nil
  then show ?case by simp
next
  case (Cons x xs)
  from Cons.prems(1) have fresh: "snd x \<notin> set (map snd ol)"
    and rec: "add_options (ol @ [x]) xs = Inr r"
    by (auto split: if_splits)
  from fresh Cons.prems(2) have "distinct (map snd (ol @ [x]))"
    by simp
  from Cons.IH [OF rec this] show ?case
    by simp
qed

lemma add_options_distinct:
  "distinct (map snd (ol @ xs)) \<Longrightarrow> add_options ol xs = Inr (ol @ xs)"
  by (induction xs arbitrary: ol) auto

lemma open_repo_picker_distinct:
  assumes "distinct (map snd rs)"
  shows "open_repo_picker rs = Inr (rp_on_mount ((RepoPickerScreen rs)\<lparr>option_list := rs\<rparr>))"
  using add_options_distinct [of "[]" rs] assms
  by (simp add: open_repo_picker_def compose_def RepoPickerScreen_def)

lemma open_repo_picker_shared_id:
  assumes "\<not> distinct (map snd rs)"
  shows "open_repo_picker rs = Inl DuplicateID"
proof (cases "add_options [] rs")
  case (Inl e)
  then show ?thesis
    by (cases e) (simp add: open_repo_picker_def compose_def RepoPickerScreen_def)
next
  case (Inr r)
  then have "distinct (map snd ([] @ rs))"
    using add_options_Inr [of "[]" rs r] by simp
  with assms show ?thesis by simp
qed

lemma rp_on_mount_fields:
  "repos (rp_on_mount s) = repos s"
  "filtered_repos (rp_on_mount s) = filtered_repos s"
  "option_list (rp_on_mount s) = option_list s"
  "rp_dismissed (rp_on_mount s) = rp_dismissed s"
  by (simp_all add: rp_on_mount_def on_option_highlighted_def split: list.splits)

lemma open_repo_picker_Inr:
  assumes "open_repo_picker rs = Inr s"
  shows "distinct (map snd rs)" and "repos s = rs" and "filtered_repos s = rs"
    and "option_list s = rs" and "rp_dismissed s = None"
proof -
  show d: "distinct (map snd rs)"
    using assms open_repo_picker_shared_id [of rs] by auto
  from assms open_repo_picker_distinct [OF d]
  have s: "s = rp_on_mount ((RepoPickerScreen rs)\<lparr>option_list := rs\<rparr>)"
    by simp
  show "repos s = rs" and "filtered_repos s = rs" and "option_list s = rs"
    and "rp_dismissed s = None"
    by (simp_all add: s rp_on_mount_fields RepoPickerScreen_def)
qed

lemma search_adds_no_duplicate:
  assumes "open_repo_picker rs = Inr s"
  shows "add_options [] (filtered_repos (on_search_changed (foldl rp_handle s evs) v))
    = Inr (option_list (on_search_changed (foldl rp_handle s evs) v))"
proof -
  have "distinct (map snd (repos s))"
    using open_repo_picker_Inr [OF assms] by simp
  then have "distinct (map snd [(name, url) \<leftarrow> repos s. str_in (lower v) (lower name)])"
    by (rule distinct_map_filter)
  then show ?thesis
    using add_options_distinct [of "[]"]
    by (simp add: on_search_changed_fields repos_foldl_rp_handle)
qed

lemma fresh_picker_tracks_first:
  assumes "distinct (map snd ((n, u) # rs))" and "u \<noteq> []"
  shows "\<not> isl (open_repo_picker ((n, u) # rs))"
    and "selected_url (projr (open_repo_picker ((n, u) # rs))) = Some u"
  using assms(2)
  by (simp_all add: open_repo_picker_distinct [OF assms(1)] rp_on_mount_def
      on_option_highlighted_def tracked_id_def)

section \<open>The main form: properties\<close>

text \<open>
  Claim C10. A dismissal of the Directory Picker with \<open>None\<close> leaves the whole form
  state as it was, for every prior state; a result \<open>Some p\<close> sets the target directory
  to \<open>p\<close> and its display to the text of \<open>p\<close>.
\<close>

theorem directory_cancel_frame:
  "on_directory_picked None a = a
   \<and> target_dir (on_directory_picked (Some p) a) = p
   \<and> target_dir_display (on_directory_picked (Some p) a) = path_str p"
  by (simp add: on_directory_picked_def)

text \<open>
  The statement of claim C2 fails where a repository is selected: a \<open>None\<close> from Select
  leaves the repository \<open>''u1''\<close> selected, the empty string clears it.
\<close>

theorem select_nothing_counterexample:
  "on_repo_picked None
     (on_repo_picked (Some ''u1'')
        ((SimpleDevEnvApp (Path ''/'' [''home'']) (Path ''/'' [''opt'']))
           \<lparr>github_repos := [(''x'', ''u1'')]\<rparr>))
   \<noteq> on_repo_picked (Some [])
     (on_repo_picked (Some ''u1'')
        ((SimpleDevEnvApp (Path ''/'' [''home'']) (Path ''/'' [''opt'']))
           \<lparr>github_repos := [(''x'', ''u1'')]\<rparr>))"
proof
  assume eq: "on_repo_picked None
     (on_repo_picked (Some ''u1'')
        ((SimpleDevEnvApp (Path ''/'' [''home'']) (Path ''/'' [''opt'']))
           \<lparr>github_repos := [(''x'', ''u1'')]\<rparr>))
   = on_repo_picked (Some [])
     (on_repo_picked (Some ''u1'')
        ((SimpleDevEnvApp (Path ''/'' [''home'']) (Path ''/'' [''opt'']))
           \<lparr>github_repos := [(''x'', ''u1'')]\<rparr>))"
  have "selected_repo (on_repo_picked None
     (on_repo_picked (Some ''u1'')
        ((SimpleDevEnvApp (Path ''/'' [''home'']) (Path ''/'' [''opt'']))
           \<lparr>github_repos := [(''x'', ''u1'')]\<rparr>)))
    = selected_repo (on_repo_picked (Some [])
     (on_repo_picked (Some ''u1'')
        ((SimpleDevEnvApp (Path ''/'' [''home'']) (Path ''/'' [''opt'']))
           \<lparr>github_repos := [(''x'', ''u1'')]\<rparr>)))"
    by (simp only: eq)
  then show False
    by (simp add: on_repo_picked_def SimpleDevEnvApp_def Let_def)
qed

text \<open>
  Claim C2, as amended. Select dismisses with the tracked identifier, whatever it is. On
  a picker opened on a candidate list that is not empty, the first entry is highlighted
  when the screen is mounted, so a Select without any further highlighting dismisses with
  the first entry's identifier, not with \<open>None\<close>. The form's continuation treats a
  \<open>None\<close> result as a cancellation and not as an empty choice: the form state is
  unchanged, and it equals the state after an empty-string result exactly when no
  repository was selected and the display already showed \<open>''(none)''\<close>.
\<close>

theorem null_result_is_cancel:
  assumes "distinct (map snd ((n, u) # rs))" and "u \<noteq> []"
  shows "rp_dismissed (rp_on_select s) = Some (selected_url s)
   \<and> \<not> isl (open_repo_picker ((n, u) # rs))
   \<and> rp_dismissed (rp_on_select (projr (open_repo_picker ((n, u) # rs)))) = Some (Some u)
   \<and> on_repo_picked None a = a
   \<and> (on_repo_picked None a = on_repo_picked (Some []) a
        \<longleftrightarrow> selected_repo a = [] \<and> repo_display a = ''(none)'')"
  using fresh_picker_tracks_first [OF assms]
  by (cases a) (auto simp: rp_on_select_def on_repo_picked_def Let_def)

theorem null_result_is_cancel_witness:
  "distinct (map snd [(''x'', ''u1'')])
   \<and> ''u1'' \<noteq> []
   \<and> \<not> isl (open_repo_picker [(''x'', ''u1'')])
   \<and> rp_dismissed (rp_on_select (projr (open_repo_picker [(''x'', ''u1'')]))) = Some (Some ''u1'')
   \<and> on_repo_picked None (SimpleDevEnvApp (Path ''/'' [''home'']) (Path ''/'' [''opt'']))
       = SimpleDevEnvApp (Path ''/'' [''home'']) (Path ''/'' [''opt''])"
proof -
  have h1: "distinct (map snd [(''x'', ''u1'')])" and h2: "''u1'' \<noteq> []"
    by simp_all
  from null_result_is_cancel [OF h1 h2,
      where a = "SimpleDevEnvApp (Path ''/'' [''home'']) (Path ''/'' [''opt''])"
        and s = "RepoPickerScreen []"] h1 h2
  show ?thesis
    by simp
qed

section \<open>Candidate Cache: properties\<close>

lemma one_name_per_id_inj: "one_name_per_id rs \<longleftrightarrow> inj_on snd (set rs)"
  by (simp add: one_name_per_id_def distinct_map)

lemma load_github_repos_loaded:
  assumes "load_all_repos w = Inr all_repos" and "all_repos \<noteq> []"
  shows "snd (load_github_repos w a)"
    and "github_repos (fst (load_github_repos w a)) = sorted_set w all_repos"
    and "pushed (fst (load_github_repos w a)) = pushed a"
  using assms by (simp_all add: load_github_repos_def Let_def update_status_def)

lemma push_repo_picker_fields:
  assumes "distinct (map snd (github_repos a))"
  shows "\<not> isl (push_repo_picker a)"
    and "github_repos (projr (push_repo_picker a)) = github_repos a"
    and "pushed (projr (push_repo_picker a))
      = Some (Repo_picker (projr (open_repo_picker (github_repos a))))"
  by (simp_all add: push_repo_picker_def open_repo_picker_distinct [OF assms])

lemma sorted_key_unique:
  assumes "sorted (map f xs)" and "distinct (map f xs)"
    and "sorted (map f ys)" and "distinct (map f ys)"
    and "set xs = set ys"
  shows "xs = ys"
proof -
  have "set (map f xs) = set (map f ys)"
    using assms(5) by simp
  then have eq: "map f xs = map f ys"
    using assms(1-4) by (intro sorted_distinct_set_unique) 
  have "inj_on f (set xs \<union> set ys)"
    using assms(2,5) by (simp add: distinct_map)
  with eq show ?thesis
    by (simp add: inj_on_map_eq_map)
qed

lemma example_cache_any_order:
  assumes "py_set_iter [(''x'', ''u1''), (''y'', ''u1''), (''z'', ''u2'')] it"
  shows "sort_key (\<lambda>x. lower (fst x)) it = [(''x'', ''u1''), (''y'', ''u1''), (''z'', ''u2'')]"
proof (rule sorted_key_unique [where f = "\<lambda>x. lower (fst x)"])
  show "sorted (map (\<lambda>x. lower (fst x)) (sort_key (\<lambda>x. lower (fst x)) it))"
    by simp
  have "distinct (map (\<lambda>x. lower (fst x)) [(''x'', ''u1''), (''y'', ''u1''), (''z'', ''u2'')])"
    by code_simp
  then have "inj_on (\<lambda>x. lower (fst x)) (set [(''x'', ''u1''), (''y'', ''u1''), (''z'', ''u2'')])"
    by (simp only: distinct_map)
  with assms have "distinct (map (\<lambda>x. lower (fst x)) it)"
    by (simp only: py_set_iter_def distinct_map simp_thms)
  then show "distinct (map (\<lambda>x. lower (fst x)) (sort_key (\<lambda>x. lower (fst x)) it))"
    by (simp add: distinct_map)
  show "sorted (map (\<lambda>x. lower (fst x)) [(''x'', ''u1''), (''y'', ''u1''), (''z'', ''u2'')])"
    by code_simp
  show "distinct (map (\<lambda>x. lower (fst x)) [(''x'', ''u1''), (''y'', ''u1''), (''z'', ''u2'')])"
    by code_simp
  show "set (sort_key (\<lambda>x. lower (fst x)) it) = set [(''x'', ''u1''), (''y'', ''u1''), (''z'', ''u2'')]"
    using assms by (simp add: py_set_iter_def)
qed

text \<open>
  The statement of claim C1 fails at its own example: the merged listing
  \<^verbatim>\<open>[("x","u1"), ("y","u1"), ("z","u2")]\<close> gives a cache of three entries, two of them with
  the identifier \<^verbatim>\<open>u1\<close>. The set is iterated here in the order of \<open>remdups\<close>; by
  \<open>example_cache_any_order\<close> every other order gives the same cache.
\<close>

theorem cache_identifier_counterexample:
  "github_repos (fst (load_github_repos example_gh_world
      (SimpleDevEnvApp (Path ''/'' [''home'']) (Path ''/'' [''opt'']))))
     = [(''x'', ''u1''), (''y'', ''u1''), (''z'', ''u2'')]
   \<and> length (github_repos (fst (load_github_repos example_gh_world
      (SimpleDevEnvApp (Path ''/'' [''home'']) (Path ''/'' [''opt''])))))  \<noteq> 2
   \<and> \<not> distinct (map snd (github_repos (fst (load_github_repos example_gh_world
      (SimpleDevEnvApp (Path ''/'' [''home'']) (Path ''/'' [''opt'']))))))"
  by code_simp

text \<open>
  On that cache the picker cannot be built: the handler ends with \<^verbatim>\<open>DuplicateID\<close>.
\<close>

lemma shared_id_picker_fails:
  "on_select_repo example_gh_world
      (SimpleDevEnvApp (Path ''/'' [''home'']) (Path ''/'' [''opt''])) = Inl DuplicateID"
proof -
  have "isl (on_select_repo example_gh_world
      (SimpleDevEnvApp (Path ''/'' [''home'']) (Path ''/'' [''opt''])))"
    by code_simp
  then obtain e where "on_select_repo example_gh_world
      (SimpleDevEnvApp (Path ''/'' [''home'']) (Path ''/'' [''opt''])) = Inl e"
    by (auto simp: isl_def)
  then show ?thesis
    by (cases e) simp
qed

text \<open>
  Claim C1, as amended. The cache is built from the set of (name, identifier) pairs, so
  exact duplicates are merged. For every merged listing that is not empty and in which
  entries with one identifier have one display name, the handler succeeds, no two entries
  of the cache share an identifier, the cache holds exactly the pairs of the listing,
  sorted by lower-cased display name, and the picker is opened on it with one option per
  entry.
\<close>

theorem cache_unique_identifiers:
  assumes "github_repos a = []"
    and "load_all_repos w = Inr all_repos"
    and "all_repos \<noteq> []"
    and "py_set_iter all_repos (set_iter w all_repos)"
    and "one_name_per_id all_repos"
  shows "\<not> isl (on_select_repo w a)
    \<and> distinct (map snd (github_repos (projr (on_select_repo w a))))
    \<and> set (github_repos (projr (on_select_repo w a))) = set all_repos
    \<and> sorted (map (\<lambda>x. lower (fst x)) (github_repos (projr (on_select_repo w a))))
    \<and> \<not> isl (open_repo_picker (github_repos (projr (on_select_repo w a))))
    \<and> pushed (projr (on_select_repo w a))
        = Some (Repo_picker (projr (open_repo_picker (github_repos (projr (on_select_repo w a))))))
    \<and> option_list (projr (open_repo_picker (github_repos (projr (on_select_repo w a)))))
        = github_repos (projr (on_select_repo w a))"
proof -
  define a' where "a' = fst (load_github_repos w a)"
  define c where "c = sorted_set w all_repos"
  have go: "load_github_repos w a = (a', True)"
    using load_github_repos_loaded(1) [OF assms(2,3), of a]
    by (cases "load_github_repos w a") (simp add: a'_def)
  have cache: "github_repos a' = c"
    using load_github_repos_loaded(2) [OF assms(2,3)] by (simp add: a'_def c_def)
  have dist: "distinct c" and elems: "set c = set all_repos"
    using assms(4) by (simp_all add: c_def sorted_set_def py_set_iter_def)
  have "inj_on snd (set c)"
    using assms(5) by (simp add: elems one_name_per_id_inj)
  with dist have ids: "distinct (map snd c)"
    by (simp add: distinct_map)
  have srt: "sorted (map (\<lambda>x. lower (fst x)) c)"
    by (simp add: c_def sorted_set_def)
  have r: "on_select_repo w a = push_repo_picker a'"
    using assms(1) by (simp add: on_select_repo_def go)
  have ids': "distinct (map snd (github_repos a'))"
    using ids by (simp add: cache)
  note p = push_repo_picker_fields [OF ids']
  have opened: "open_repo_picker c = Inr (rp_on_mount ((RepoPickerScreen c)\<lparr>option_list := c\<rparr>))"
    using open_repo_picker_distinct [OF ids] .
  show ?thesis
    using p ids elems srt
    by (simp add: r cache opened rp_on_mount_fields)
qed

theorem cache_unique_identifiers_witness:
  "github_repos (SimpleDevEnvApp (Path ''/'' [''home'']) (Path ''/'' [''opt''])) = []
   \<and> load_all_repos overlap_gh_world = Inr [(''x'', ''u1''), (''x'', ''u1''), (''z'', ''u2'')]
   \<and> py_set_iter [(''x'', ''u1''), (''x'', ''u1''), (''z'', ''u2'')]
        (set_iter overlap_gh_world [(''x'', ''u1''), (''x'', ''u1''), (''z'', ''u2'')])
   \<and> one_name_per_id [(''x'', ''u1''), (''x'', ''u1''), (''z'', ''u2'')]
   \<and> \<not> isl (on_select_repo overlap_gh_world
        (SimpleDevEnvApp (Path ''/'' [''home'']) (Path ''/'' [''opt''])))
   \<and> github_repos (projr (on_select_repo overlap_gh_world
        (SimpleDevEnvApp (Path ''/'' [''home'']) (Path ''/'' [''opt'']))))
       = [(''x'', ''u1''), (''z'', ''u2'')]
   \<and> distinct (map snd (github_repos (projr (on_select_repo overlap_gh_world
        (SimpleDevEnvApp (Path ''/'' [''home'']) (Path ''/'' [''opt''])))))) 
   \<and> sorted (map (\<lambda>x. lower (fst x)) (github_repos (projr (on_select_repo overlap_gh_world
        (SimpleDevEnvApp (Path ''/'' [''home'']) (Path ''/'' [''opt'']))))))"
proof -
  have h1: "github_repos (SimpleDevEnvApp (Path ''/'' [''home'']) (Path ''/'' [''opt''])) = []"
    by (simp add: SimpleDevEnvApp_def Let_def)
  have h2: "load_all_repos overlap_gh_world = Inr [(''x'', ''u1''), (''x'', ''u1''), (''z'', ''u2'')]"
    by (simp add: load_all_repos_def overlap_gh_world_def gh_repo_list_def)
  have h3: "[(''x'', ''u1''), (''x'', ''u1''), (''z'', ''u2'')] \<noteq> ([] :: repo list)"
    by simp
  have h4: "py_set_iter [(''x'', ''u1''), (''x'', ''u1''), (''z'', ''u2'')]
        (set_iter overlap_gh_world [(''x'', ''u1''), (''x'', ''u1''), (''z'', ''u2'')])"
    by (simp add: py_set_iter_def overlap_gh_world_def)
  have h5: "one_name_per_id [(''x'', ''u1''), (''x'', ''u1''), (''z'', ''u2'')]"
    by (simp add: one_name_per_id_def)
  have e: "github_repos (projr (on_select_repo overlap_gh_world
        (SimpleDevEnvApp (Path ''/'' [''home'']) (Path ''/'' [''opt'']))))
       = [(''x'', ''u1''), (''z'', ''u2'')]"
    by code_simp
  from cache_unique_identifiers [OF h1 h2 h3 h4 h5] h1 h2 h4 h5 e show ?thesis
    by simp
qed

section \<open>Execution Handoff: properties\<close>

lemma suspended_run_result:
  "suspended_run w sp pn ov env cr a =
     (returncode w,
      a\<lparr>ui_mode := INTERACTIVE_UI,
        terminal := terminal a @
          [CHR 0x0A # banner, ''Setting up '' @ pn @ '' with Odoo '' @ ov,
           ''Target: '' @ path_str (target_dir a)] @
          (if cr \<noteq> [] then [''Clone repo: '' @ cr] else []) @
          [banner @ [CHR 0x0A], CHR 0x0A # banner,
           if returncode w = 0 then ''Setup completed successfully!''
           else ''Setup failed with exit code '' @ str_int (returncode w),
           ''Press Enter to return to the TUI...''],
        trace := trace a @
          [Suspend, Spawn [''bash'', path_str sp, pn, ov] env (path_str (script_dir a)),
           Exit (returncode w), Prompt, Resume]\<rparr>)"
  by (simp add: suspended_run_def suspend_enter_def suspend_exit_def py_print_def py_input_def
      subprocess_run_def Let_def)

text \<open>
  Claim C3. When the script exists, for every exit status of the foreground process: the
  value bound inside the suspended block is that status; the terminal sees, in this
  order, the suspension, the process being spawned, its exit with that status, the prompt
  and one resumption, after which the display is interactive again; a nonzero status is
  written in decimal into the status bar and the log, and the decimal text reads back as
  the status.
\<close>

theorem handoff_exit_status:
  assumes "script_exists w"
  shows "fst (suspended_run w (joinpath (script_dir a) ''create.sh'') pn ov
               (setup_env (os_environ w) (target_dir a) db pc cr) cr a) = returncode w
   \<and> trace (run_setup w pn ov db pc cr a) =
       trace a @
         [Suspend,
          Spawn [''bash'', path_str (joinpath (script_dir a) ''create.sh''), pn, ov]
            (setup_env (os_environ w) (target_dir a) db pc cr) (path_str (script_dir a)),
          Exit (returncode w), Prompt, Resume]
   \<and> count_list (trace (run_setup w pn ov db pc cr a)) Resume = count_list (trace a) Resume + 1
   \<and> ui_mode (run_setup w pn ov db pc cr a) = INTERACTIVE_UI
   \<and> (returncode w \<noteq> 0 \<longrightarrow>
        status_bar (run_setup w pn ov db pc cr a)
          = ''[bold red]Setup failed (exit code '' @ str_int (returncode w) @ '')[/]''
        \<and> log_lines (run_setup w pn ov db pc cr a)
          = [''Setup failed with exit code '' @ str_int (returncode w)])
   \<and> int_of_str (str_int (returncode w)) = returncode w"
  using assms
  by (simp add: run_setup_def suspended_run_result Let_def update_status_def log_write_line_def
      int_of_str_str_int)

lemma trace_SimpleDevEnvApp: "trace (SimpleDevEnvApp home dir) = []"
  by (simp add: SimpleDevEnvApp_def Let_def)

lemma str_int_3: "str_int 3 = ''3''"
  by code_simp

theorem handoff_exit_status_witness:
  "script_exists \<lparr>script_exists = True, os_environ = Map.empty, returncode = 3\<rparr>
   \<and> fst (suspended_run \<lparr>script_exists = True, os_environ = Map.empty, returncode = 3\<rparr>
        (joinpath (script_dir (SimpleDevEnvApp (Path ''/'' [''home'', ''u'']) (Path ''/'' [''opt'', ''devenv''])))
           ''create.sh'')
        ''proj'' ''18.0''
        (setup_env Map.empty
           (target_dir (SimpleDevEnvApp (Path ''/'' [''home'', ''u'']) (Path ''/'' [''opt'', ''devenv''])))
           [] False [])
        [] (SimpleDevEnvApp (Path ''/'' [''home'', ''u'']) (Path ''/'' [''opt'', ''devenv'']))) = 3
   \<and> status_bar (run_setup \<lparr>script_exists = True, os_environ = Map.empty, returncode = 3\<rparr>
        ''proj'' ''18.0'' [] False []
        (SimpleDevEnvApp (Path ''/'' [''home'', ''u'']) (Path ''/'' [''opt'', ''devenv''])))
       = ''[bold red]Setup failed (exit code 3)[/]''
   \<and> count_list (trace (run_setup \<lparr>script_exists = True, os_environ = Map.empty, returncode = 3\<rparr>
        ''proj'' ''18.0'' [] False []
        (SimpleDevEnvApp (Path ''/'' [''home'', ''u'']) (Path ''/'' [''opt'', ''devenv''])))) Resume = 1
   \<and> ui_mode (run_setup \<lparr>script_exists = True, os_environ = Map.empty, returncode = 3\<rparr>
        ''proj'' ''18.0'' [] False []
        (SimpleDevEnvApp (Path ''/'' [''home'', ''u'']) (Path ''/'' [''opt'', ''devenv''])))
       = INTERACTIVE_UI"
  using handoff_exit_status [of "\<lparr>script_exists = True, os_environ = Map.empty, returncode = 3\<rparr>"
      "SimpleDevEnvApp (Path ''/'' [''home'', ''u'']) (Path ''/'' [''opt'', ''devenv''])"
      "''proj''" "''18.0''" "[]" False "[]"]
  by (simp add: trace_SimpleDevEnvApp str_int_3)

end
